theory Spec2Isabelle
  imports Main
begin

section \<open>The start-up script \<open>app.py\<close>\<close>

text \<open>
  \<open>app.py\<close> is a module-level script: it reads the process environment, picks the
  conversation-history storage, lists the agents of the project, assembles the agent
  options (with the tool manifest), creates or updates the agent, and constructs the
  bot. The model threads a trace of the external calls the script makes, in the order
  in which it makes them, so that ``before'', ``exactly once'' and ``never'' are
  statements about that trace. An uncaught exception is a result \<open>Inl e\<close>.
\<close>

subsection \<open>Environment\<close>

type_synonym environ = "string \<rightharpoonup> string"

text \<open>\<open>os.getenv(k)\<close>: the value of the variable, \<open>None\<close> when it is not set.\<close>

definition getenv :: "environ \<Rightarrow> string \<Rightarrow> string option" where
  "getenv env k = env k"

text \<open>Python's truth value of an \<open>os.getenv\<close> result: \<open>None\<close> and \<open>""\<close> are false.\<close>

fun truthy :: "string option \<Rightarrow> bool" where
  "truthy None = False"
| "truthy (Some s) = (s \<noteq> [])"

text \<open>\<open>s.endswith(suf)\<close>.\<close>

definition endswith :: "string \<Rightarrow> string \<Rightarrow> bool" where
  "endswith s suf = (length suf \<le> length s \<and> drop (length s - length suf) s = suf)"

text \<open>
  The exceptions the script can end with: the one it raises itself, the one of
  \<open>json.loads\<close> (with the path of the file), the one of reading a key that a
  dictionary does not have, and the one of a call whose arguments do not fit.
\<close>

datatype error = TooManyAgents | JSONDecodeError string | KeyError string | TypeError string

subsection \<open>Conversation-history storage (lines 76--93)\<close>

record credential =
  managed_identity_client_id :: "string option"

record cosmos_config =
  cosmos_db_endpoint :: "string option"
  database_id :: "string option"
  container_id :: "string option"
  auth_key :: "string option"

record cosmos_client =
  client_url :: "string option"
  client_auth :: credential

datatype storage =
    CosmosDbPartitionedStorage cosmos_config cosmos_client
  | MemoryStorage

text \<open>
  Line 87, \<open>storage.client = CosmosClient(os.getenv("AZURE_COSMOSDB_ENDPOINT"),
  auth=credential)\<close>, calls the constructor of the Cosmos client, which belongs to the
  library and not to the script, and which can raise; the script does not catch the
  exception. \<open>new_client url cred\<close> is what that call does: the exception, or the
  client, which the script then stores in the \<open>client\<close> attribute of the storage object
  (the second argument of \<open>CosmosDbPartitionedStorage\<close> below).
\<close>

definition make_storage ::
  "(string option \<Rightarrow> credential \<Rightarrow> error + cosmos_client) \<Rightarrow> environ \<Rightarrow> credential
     \<Rightarrow> error + storage" where
  "make_storage new_client env cred =
     (if truthy (getenv env ''AZURE_COSMOSDB_ENDPOINT'') then
        (case new_client (getenv env ''AZURE_COSMOSDB_ENDPOINT'') cred of
           Inl e \<Rightarrow> Inl e
         | Inr client \<Rightarrow>
             Inr (CosmosDbPartitionedStorage
                    \<lparr>cosmos_db_endpoint = getenv env ''AZURE_COSMOSDB_ENDPOINT'',
                     database_id = getenv env ''AZURE_COSMOSDB_DATABASE_ID'',
                     container_id = getenv env ''AZURE_COSMOSDB_CONTAINER_ID'',
                     auth_key = getenv env ''AZURE_COSMOSDB_AUTH_KEY''\<rparr>
                    client))
      else Inr MemoryStorage)"

text \<open>
  Objects are kept in a store and named by their address, so that ``the same instance''
  is equality of addresses. \<open>UserState(storage)\<close> and \<open>ConversationState(storage)\<close> keep the
  reference they are given.
\<close>

type_synonym ref = nat

definition alloc :: "'a list \<Rightarrow> 'a \<Rightarrow> ref \<times> 'a list" where
  "alloc heap obj = (length heap, heap @ [obj])"

datatype bot_state = UserState ref | ConversationState ref

fun state_storage :: "bot_state \<Rightarrow> ref" where
  "state_storage (UserState r) = r"
| "state_storage (ConversationState r) = r"

text \<open>
  Lines 76--93: one storage object is built, and both state objects are given it. When
  the construction of the Cosmos client raises, the script ends there.
\<close>

record bot_states =
  heap :: "storage list"
  user_state :: bot_state
  conversation_state :: bot_state

definition setup_state ::
  "(string option \<Rightarrow> credential \<Rightarrow> error + cosmos_client) \<Rightarrow> environ \<Rightarrow> credential
     \<Rightarrow> error + bot_states" where
  "setup_state new_client env cred =
     (case make_storage new_client env cred of
        Inl e \<Rightarrow> Inl e
      | Inr s \<Rightarrow>
          (case alloc [] s of
             (storage, hp) \<Rightarrow>
               Inr \<lparr>heap = hp, user_state = UserState storage,
                    conversation_state = ConversationState storage\<rparr>))"

subsection \<open>Agents, options and the tool manifest (lines 97--115)\<close>

text \<open>
  An agent as the listing returns it. The name of an agent may be null, and the
  configured name \<open>os.getenv("AZURE_OPENAI_AGENT_NAME")\<close> may be \<open>None\<close>; Python's \<open>==\<close>
  on them is equality of the optional values.
\<close>

record agent =
  agent_id :: string
  agent_name :: "string option"

record listing =
  has_more :: bool
  data :: "agent list"

text \<open>
  A tool definition is one of the two definitions of the SDK, or a descriptor read from
  a file; \<open>'j\<close> is the type of parsed JSON values. \<open>CodeInterpreterTool().definitions\<close> and
  \<open>FileSearchTool().definitions\<close> are the SDK's one-element lists.
\<close>

datatype 'j tool_def =
    CodeInterpreterToolDefinition
  | FileSearchToolDefinition
  | Descriptor 'j

definition CodeInterpreterTool_definitions :: "'j tool_def list" where
  "CodeInterpreterTool_definitions = [CodeInterpreterToolDefinition]"

definition FileSearchTool_definitions :: "'j tool_def list" where
  "FileSearchTool_definitions = [FileSearchToolDefinition]"

text \<open>The dictionary \<open>options\<close>; the key \<open>"assistant_id"\<close> is absent until it is assigned.\<close>

record 'j options =
  name :: "string option"
  model :: "string option"
  instructions :: "string option"
  tools :: "'j tool_def list"
  headers :: "(string \<times> string) list"
  assistant_id :: "string option"

definition initial_options :: "environ \<Rightarrow> 'j options" where
  "initial_options env =
     \<lparr>name = getenv env ''AZURE_OPENAI_AGENT_NAME'',
      model = getenv env ''AZURE_OPENAI_DEPLOYMENT_NAME'',
      instructions = getenv env ''LLM_INSTRUCTIONS'',
      tools = CodeInterpreterTool_definitions @ FileSearchTool_definitions,
      headers = [(''x-ms-enable-preview'', ''true'')],
      assistant_id = None\<rparr>"

text \<open>The external calls of the script, as they appear in the trace.\<close>

datatype 'j event =
    ListAgents nat
  | ListDir string
  | OpenRead string
  | UpdateAgent "'j options"
  | CreateAgent "'j options"
  | ConstructBot string

fun is_agent_write :: "'j event \<Rightarrow> bool" where
  "is_agent_write (UpdateAgent _) = True"
| "is_agent_write (CreateAgent _) = True"
| "is_agent_write _ = False"

fun is_fs_access :: "'j event \<Rightarrow> bool" where
  "is_fs_access (ListDir _) = True"
| "is_fs_access (OpenRead _) = True"
| "is_fs_access _ = False"

fun is_bot_construction :: "'j event \<Rightarrow> bool" where
  "is_bot_construction (ConstructBot _) = True"
| "is_bot_construction _ = False"

text \<open>
  The tools directory: \<open>os.listdir("tools")\<close> gives the names, in the order the operating
  system returns them, and every entry is a regular file that can be read;
  \<open>file_content\<close> gives the text of a path.
\<close>

record filesystem =
  listdir_tools :: "string list"
  file_content :: "string \<Rightarrow> string"

text \<open>
  The loop of lines 112--115; \<open>tool_path tool\<close> is \<open>f"tools/{tool}"\<close>. \<open>loads\<close> is
  \<open>json.loads\<close>, \<open>None\<close> when it raises \<open>JSONDecodeError\<close>; the exception is not caught,
  so the loop stops there.
\<close>

definition tool_path :: "string \<Rightarrow> string" where
  "tool_path tool = ''tools/'' @ tool"

fun load_tools ::
  "(string \<Rightarrow> 'j option) \<Rightarrow> (string \<Rightarrow> string) \<Rightarrow> string list \<Rightarrow> 'j tool_def list
     \<Rightarrow> (error + 'j tool_def list) \<times> 'j event list" where
  "load_tools loads rd [] ts = (Inr ts, [])"
| "load_tools loads rd (tool # rest) ts =
     (if endswith tool ''.json'' then
        (case loads (rd (tool_path tool)) of
           None \<Rightarrow> (Inl (JSONDecodeError (tool_path tool)), [OpenRead (tool_path tool)])
         | Some j \<Rightarrow>
             (case load_tools loads rd rest (ts @ [Descriptor j]) of
                (r, tr) \<Rightarrow> (r, OpenRead (tool_path tool) # tr)))
      else load_tools loads rd rest ts)"

subsection \<open>Create or update the agent (lines 117--126)\<close>

text \<open>The agent service: what the three calls of the script return.\<close>

record 'j backend =
  list_agents :: "nat \<Rightarrow> listing"
  update_agent :: "'j options \<Rightarrow> agent"
  create_agent :: "'j options \<Rightarrow> agent"

text \<open>
  The \<open>for\<close> loop of lines 119--123: at the first agent whose name is the configured
  name, \<open>options["assistant_id"]\<close> is assigned, \<open>update_agent(**options)\<close> is called and the
  loop is left by \<open>break\<close>. The agent that the call returns is bound to the loop
  variable and not read again, so it does not appear in the result.
\<close>

definition name_matches :: "environ \<Rightarrow> agent \<Rightarrow> bool" where
  "name_matches env a = (agent_name a = getenv env ''AZURE_OPENAI_AGENT_NAME'')"

fun update_first_match ::
  "environ \<Rightarrow> 'j options \<Rightarrow> agent list \<Rightarrow> 'j options \<times> 'j event list" where
  "update_first_match env opts [] = (opts, [])"
| "update_first_match env opts (a # rest) =
     (if name_matches env a then
        (opts\<lparr>assistant_id := Some (agent_id a)\<rparr>,
         [UpdateAgent (opts\<lparr>assistant_id := Some (agent_id a)\<rparr>)])
      else update_first_match env opts rest)"

definition provision_agent ::
  "'j backend \<Rightarrow> environ \<Rightarrow> listing \<Rightarrow> 'j options \<Rightarrow> (error + 'j options) \<times> 'j event list" where
  "provision_agent be env agents opts =
     (if has_more agents then (Inl TooManyAgents, [])
      else
        (case update_first_match env opts (data agents) of
           (opts1, tr) \<Rightarrow>
             (if assistant_id opts1 = None then
                (Inr (opts1\<lparr>assistant_id := Some (agent_id (create_agent be opts1))\<rparr>),
                 tr @ [CreateAgent opts1])
              else (Inr opts1, tr))))"

subsection \<open>Provisioning and the bot (lines 97--137), and the whole script\<close>

record bot =
  bot_conversation_state :: bot_state
  bot_user_state :: bot_state
  bot_assistant_id :: string

record app =
  app_states :: bot_states
  the_bot :: bot

text \<open>
  Lines 97--137, which run once the state objects \<open>st\<close> of lines 76--93 exist: list the
  agents, assemble the options, load the tool descriptors, create or update the agent,
  and construct the bot with the two state objects and the agent identifier.
\<close>

definition startup ::
  "(string \<Rightarrow> 'j option) \<Rightarrow> environ \<Rightarrow> filesystem \<Rightarrow> 'j backend \<Rightarrow> bot_states
     \<Rightarrow> (error + app) \<times> 'j event list" where
  "startup loads env fs be st =
     (let agents = list_agents be 100;
          tr0 = [ListAgents 100, ListDir ''tools'']
      in case load_tools loads (file_content fs) (listdir_tools fs)
                (tools (initial_options env)) of
           (Inl e, tr1) \<Rightarrow> (Inl e, tr0 @ tr1)
         | (Inr ts, tr1) \<Rightarrow>
             (case provision_agent be env agents ((initial_options env)\<lparr>tools := ts\<rparr>) of
                (Inl e, tr2) \<Rightarrow> (Inl e, tr0 @ tr1 @ tr2)
              | (Inr opts, tr2) \<Rightarrow>
                  (case assistant_id opts of
                     None \<Rightarrow> (Inl (KeyError ''assistant_id''), tr0 @ tr1 @ tr2)
                   | Some aid \<Rightarrow>
                       (Inr \<lparr>app_states = st,
                             the_bot = \<lparr>bot_conversation_state = conversation_state st,
                                        bot_user_state = user_state st,
                                        bot_assistant_id = aid\<rparr>\<rparr>,
                        tr0 @ tr1 @ tr2 @ [ConstructBot aid]))))"

text \<open>
  The script from line 55 on: the credential, the state objects, and then lines 97--137.
  An exception of the storage set-up ends the script before the agents are listed.
\<close>

definition app_script ::
  "(string option \<Rightarrow> credential \<Rightarrow> error + cosmos_client) \<Rightarrow> (string \<Rightarrow> 'j option)
     \<Rightarrow> environ \<Rightarrow> filesystem \<Rightarrow> 'j backend \<Rightarrow> (error + app) \<times> 'j event list" where
  "app_script new_client loads env fs be =
     (case setup_state new_client env
             \<lparr>managed_identity_client_id = getenv env ''MicrosoftAppId''\<rparr> of
        Inl e \<Rightarrow> (Inl e, [])
      | Inr st \<Rightarrow> startup loads env fs be st)"

subsection \<open>Vocabulary of the statements about the script\<close>

text \<open>
  The names of the tools directory that the loop reads, the result of parsing all of
  them (\<open>None\<close> when one of them is not valid JSON), the reads the loop makes, and the
  options once the descriptors \<open>ds\<close> have been appended.
\<close>

definition json_files :: "string list \<Rightarrow> string list" where
  "json_files names = filter (\<lambda>tool. endswith tool ''.json'') names"

definition parsed_descriptors :: "(string \<Rightarrow> 'j option) \<Rightarrow> filesystem \<Rightarrow> 'j list option" where
  "parsed_descriptors loads fs =
     those (map (\<lambda>n. loads (file_content fs (tool_path n))) (json_files (listdir_tools fs)))"

definition descriptor_reads :: "filesystem \<Rightarrow> 'j event list" where
  "descriptor_reads fs = map (\<lambda>n. OpenRead (tool_path n)) (json_files (listdir_tools fs))"

definition loaded_options :: "environ \<Rightarrow> 'j list \<Rightarrow> 'j options" where
  "loaded_options env ds =
     (initial_options env)\<lparr>tools := tools (initial_options env) @ map Descriptor ds\<rparr>"

text \<open>
  The four classes of tools that the agent is advertised with. The two definitions of
  the SDK have their class; the class of a descriptor is decided by its content, which
  the parameter \<open>cl\<close> reads.
\<close>

datatype tool_class = CodeExecution | FileSearch | WebSearch | DirectoryLookup | OtherTool

fun tool_class_of :: "('j \<Rightarrow> tool_class) \<Rightarrow> 'j tool_def \<Rightarrow> tool_class" where
  "tool_class_of cl CodeInterpreterToolDefinition = CodeExecution"
| "tool_class_of cl FileSearchToolDefinition = FileSearch"
| "tool_class_of cl (Descriptor j) = cl j"

definition has_tool_class :: "('j \<Rightarrow> tool_class) \<Rightarrow> tool_class \<Rightarrow> 'j tool_def list \<Rightarrow> bool" where
  "has_tool_class cl c ts = (c \<in> set (map (tool_class_of cl) ts))"

section \<open>The Agent Turn Orchestrator\<close>

text \<open>
  \<open>app.py\<close> hands the resolved agent identifier to \<open>AssistantBot\<close>, whose module
  (\<open>bots\<close>) is not among the sources. Its components are modelled from the
  specification: the State Store Adapter (4.5), the thread resolution of the Turn
  Orchestrator (4.1), the Tool Dispatcher (4.4), the Auth Gate (4.3) and the
  \<open>requires_action\<close> step of the Run Driver (4.2).
\<close>

subsection \<open>State Store Adapter and thread resolution\<close>

type_synonym conversation_id = string
type_synonym thread_id = nat
type_synonym version = nat

text \<open>
  Modelled from the spec: the Conversation Session of section 3, which is missing with
  the module \<open>bots\<close>; it holds a reference to exactly one remote Thread.
\<close>

record session_state =
  thread :: thread_id

text \<open>
  Modelled from the spec: the store of section 4.5, missing with the storage classes of
  the bot framework. It maps a conversation to its state and the version of the state;
  a conversation that was never written has version \<open>0\<close>.
\<close>

type_synonym state_store = "conversation_id \<rightharpoonup> (session_state \<times> version)"

datatype put_result = Ok state_store | Conflict

text \<open>Modelled from the spec: \<open>get(conversation_id) -> SessionState?\<close> of section 4.5.\<close>

definition store_get :: "state_store \<Rightarrow> conversation_id \<Rightarrow> (session_state \<times> version) option" where
  "store_get st c = st c"

text \<open>
  Modelled from the spec: the version that a write must carry to succeed (section 4.5),
  the one last written, or \<open>0\<close> for a conversation without state.
\<close>

definition current_version :: "state_store \<Rightarrow> conversation_id \<Rightarrow> version" where
  "current_version st c = (case st c of None \<Rightarrow> 0 | Some (s, v) \<Rightarrow> v)"

text \<open>
  Modelled from the spec: \<open>put(conversation_id, SessionState, expected_version) ->
  ok|conflict\<close> of section 4.5; a write with a version other than the current one is a
  conflict and leaves the store as it is.
\<close>

definition store_put ::
  "state_store \<Rightarrow> conversation_id \<Rightarrow> session_state \<Rightarrow> version \<Rightarrow> put_result" where
  "store_put st c s expected =
     (if current_version st c = expected
      then Ok (st(c \<mapsto> (s, Suc expected)))
      else Conflict)"

text \<open>
  Modelled from the spec: the agent backend of section 6, as far as threads go. A
  Thread is an append-only log of messages; its identifier is its position in the list
  of the threads created so far, and each Thread is kept with the conversation it was
  created for.
\<close>

record world =
  store :: state_store
  threads :: "(conversation_id \<times> string list) list"

text \<open>Modelled from the spec: the world before the first message of any conversation.\<close>

definition initial_world :: world where
  "initial_world = \<lparr>store = Map.empty, threads = []\<rparr>"

text \<open>Modelled from the spec: Thread creation of the agent backend (section 6).\<close>

definition create_thread :: "conversation_id \<Rightarrow> world \<Rightarrow> thread_id \<times> world" where
  "create_thread c w = (length (threads w), w\<lparr>threads := threads w @ [(c, [])]\<rparr>)"

text \<open>
  Modelled from the spec: Thread append of the agent backend (section 6); the message
  goes to the end of the log of the Thread.
\<close>

definition append_message :: "thread_id \<Rightarrow> string \<Rightarrow> world \<Rightarrow> world" where
  "append_message t m w =
     (if t < length (threads w)
      then w\<lparr>threads := (threads w)[t := (fst (threads w ! t), snd (threads w ! t) @ [m])]\<rparr>
      else w)"

datatype turn_error = StateConflict

text \<open>
  Modelled from the spec: the first step of \<open>handle_turn\<close> (section 4.1): fetch the
  Thread id of the conversation from the State Store; if it is absent, create a new
  remote Thread and persist the mapping; a conflict on that write means that another
  writer was first, and its Thread is the one to use.
\<close>

definition resolve_thread :: "conversation_id \<Rightarrow> world \<Rightarrow> turn_error + (thread_id \<times> world)" where
  "resolve_thread c w =
     (case store_get (store w) c of
        Some (s, v) \<Rightarrow> Inr (thread s, w)
      | None \<Rightarrow>
          (case create_thread c w of
             (t, w1) \<Rightarrow>
               (case store_put (store w1) c \<lparr>thread = t\<rparr> 0 of
                  Ok st \<Rightarrow> Inr (t, w1\<lparr>store := st\<rparr>)
                | Conflict \<Rightarrow>
                    (case store_get (store w1) c of
                       Some (s, v) \<Rightarrow> Inr (thread s, w1)
                     | None \<Rightarrow> Inl StateConflict))))"

text \<open>
  Modelled from the spec: the first two steps of \<open>handle_turn\<close> (section 4.1): resolve
  the Thread, then append the user's message to it. The result is the Thread the turn
  runs on.
\<close>

definition begin_turn ::
  "conversation_id \<Rightarrow> string \<Rightarrow> world \<Rightarrow> turn_error + (thread_id \<times> world)" where
  "begin_turn c m w =
     (case resolve_thread c w of
        Inl e \<Rightarrow> Inl e
      | Inr (t, w1) \<Rightarrow> Inr (t, append_message t m w1))"

text \<open>
  Modelled from the spec: turns processed one after the other (section 5 serialises the
  turns of a conversation); a turn that fails leaves the world as it found it.
\<close>

fun run_turns :: "(conversation_id \<times> string) list \<Rightarrow> world \<Rightarrow> world" where
  "run_turns [] w = w"
| "run_turns ((c, m) # rest) w =
     (case begin_turn c m w of
        Inl e \<Rightarrow> run_turns rest w
      | Inr (t, w1) \<Rightarrow> run_turns rest w1)"

text \<open>
  Modelled from the spec: the Threads of the backend that were created for a conversation
  (the ``live Threads'' of the invariant of section 3).
\<close>

definition threads_of :: "conversation_id \<Rightarrow> world \<Rightarrow> thread_id list" where
  "threads_of c w = filter (\<lambda>t. fst (threads w ! t) = c) [0..<length (threads w)]"

text \<open>
  Modelled from the spec: the invariant of section 3 on the worlds that turns produce: the Threads created for a conversation
  are exactly the one its session refers to, and none when it has no session.
\<close>

definition thread_invariant :: "world \<Rightarrow> bool" where
  "thread_invariant w =
     (\<forall>c. threads_of c w = (case store w c of None \<Rightarrow> [] | Some (s, v) \<Rightarrow> [thread s]))"

subsection \<open>Tool Dispatcher, Auth Gate and the \<open>requires_action\<close> step\<close>

type_synonym resource = string
type_synonym user_id = string


text \<open>
  Modelled from the spec: the Identity Token of section 3, a bearer credential with a
  stated expiry.
\<close>

record token =
  secret :: string
  expiry :: nat

text \<open>
  Modelled from the spec: what a time-bounded handler call can end with (section 4.4):
  a result, an exception, or the time bound.
\<close>

datatype 'p handler_result = Returned 'p | Raised string | TimedOut

text \<open>
  Modelled from the spec: an entry of the tool registry (section 4.4): the declared
  schema, the resource whose Identity Token the handler needs (if any), and the handler.
\<close>

record ('a, 'p) tool =
  schema :: "'a \<Rightarrow> bool"
  requires :: "resource option"
  handler :: "'a \<Rightarrow> token option \<Rightarrow> 'p handler_result"






text \<open>
  Modelled from the spec: the token cache of the Auth Gate, per user and resource, and
  the outcome of \<open>authorize\<close> (section 4.3).
\<close>

type_synonym token_cache = "(user_id \<times> resource) \<rightharpoonup> token"







subsection \<open>Vocabulary of the statements about the \<open>requires_action\<close> step\<close>


definition valid_cached :: "nat \<Rightarrow> user_id \<Rightarrow> token_cache \<Rightarrow> resource \<Rightarrow> token option" where
  "valid_cached now user cache r =
     (case cache (user, r) of
        None \<Rightarrow> None
      | Some tok \<Rightarrow> if now < expiry tok then Some tok else None)"






section \<open>Concrete inputs\<close>

text \<open>
  The inputs at which the theorems below are instantiated. JSON values are stood for
  by the text of the file; \<open>example_loads\<close> rejects the one text \<open>{\<close>.
\<close>

definition example_loads :: "string \<Rightarrow> string option" where
  "example_loads s = (if s = ''{'' then None else Some s)"

definition example_env :: environ where
  "example_env = [''AZURE_OPENAI_AGENT_NAME'' \<mapsto> ''travel-agent'']"

definition cosmos_env :: environ where
  "cosmos_env = [''AZURE_COSMOSDB_ENDPOINT'' \<mapsto> ''https://db.example'']"

definition empty_endpoint_env :: environ where
  "empty_endpoint_env = [''AZURE_COSMOSDB_ENDPOINT'' \<mapsto> '''']"

definition no_credential :: credential where
  "no_credential = \<lparr>managed_identity_client_id = None\<rparr>"

definition example_states :: bot_states where
  "example_states =
     \<lparr>heap = [MemoryStorage], user_state = UserState 0,
      conversation_state = ConversationState 0\<rparr>"

text \<open>
  A client constructor that raises on every call, as the constructor of the library does
  when the keyword \<open>auth\<close> and the credential object do not fit its parameters.
\<close>

definition rejecting_client :: "string option \<Rightarrow> credential \<Rightarrow> error + cosmos_client" where
  "rejecting_client url cred = Inl (TypeError ''CosmosClient'')"

definition agent_one :: agent where
  "agent_one = \<lparr>agent_id = ''asst_1'', agent_name = Some ''travel-agent''\<rparr>"

definition agent_two :: agent where
  "agent_two = \<lparr>agent_id = ''asst_2'', agent_name = Some ''travel-agent''\<rparr>"

definition agent_other :: agent where
  "agent_other = \<lparr>agent_id = ''asst_0'', agent_name = Some ''weather-agent''\<rparr>"

definition two_same_named :: listing where
  "two_same_named = \<lparr>has_more = False, data = [agent_other, agent_one, agent_two]\<rparr>"

definition no_match_listing :: listing where
  "no_match_listing = \<lparr>has_more = False, data = [agent_other]\<rparr>"

definition truncated_listing :: listing where
  "truncated_listing = \<lparr>has_more = True, data = [agent_one]\<rparr>"

definition example_backend :: "listing \<Rightarrow> string backend" where
  "example_backend l =
     \<lparr>list_agents = (\<lambda>limit. l),
      update_agent = (\<lambda>opts. \<lparr>agent_id = ''asst_updated'', agent_name = name opts\<rparr>),
      create_agent = (\<lambda>opts. \<lparr>agent_id = ''asst_new'', agent_name = name opts\<rparr>)\<rparr>"

definition example_fs :: filesystem where
  "example_fs =
     \<lparr>listdir_tools = [''README.md'', ''search.json''],
      file_content = (\<lambda>p. if p = ''tools/search.json'' then ''{}'' else ''text'')\<rparr>"

definition broken_fs :: filesystem where
  "broken_fs =
     \<lparr>listdir_tools = [''search.json'', ''bad.json''],
      file_content = (\<lambda>p. if p = ''tools/bad.json'' then ''{'' else ''{}'')\<rparr>"

definition empty_fs :: filesystem where
  "empty_fs = \<lparr>listdir_tools = [], file_content = (\<lambda>p. [])\<rparr>"

definition example_class :: "string \<Rightarrow> tool_class" where
  "example_class j = WebSearch"










section \<open>Properties of the start-up script\<close>

subsection \<open>The loops and the steps\<close>

lemma json_files_Cons:
  "json_files (n # ns) = (if endswith n ''.json'' then n # json_files ns else json_files ns)"
  by (simp add: json_files_def)

lemma json_files_Nil: "json_files [] = []"
  by (simp add: json_files_def)

lemma load_tools_ok:
  "those (map (\<lambda>n. loads (rd (tool_path n))) (json_files names)) = Some ds \<Longrightarrow>
   load_tools loads rd names ts =
     (Inr (ts @ map Descriptor ds), map (\<lambda>n. OpenRead (tool_path n)) (json_files names))"
proof (induction names arbitrary: ts ds)
  case Nil
  then show ?case by (simp add: json_files_Nil)
next
  case (Cons n ns)
  show ?case
  proof (cases "endswith n ''.json''")
    case False
    with Cons show ?thesis by (simp add: json_files_Cons)
  next
    case True
    with Cons.prems obtain j ds' where
      j: "loads (rd (tool_path n)) = Some j" and
      ds': "those (map (\<lambda>n. loads (rd (tool_path n))) (json_files ns)) = Some ds'" and
      ds: "ds = j # ds'"
      by (auto simp: json_files_Cons split: option.splits)
    from Cons.IH [OF ds', of "ts @ [Descriptor j]"] True j ds
    show ?thesis by (simp add: json_files_Cons)
  qed
qed

lemma load_tools_fail:
  "those (map (\<lambda>n. loads (rd (tool_path n))) (json_files names)) = None \<Longrightarrow>
   \<exists>p tr. load_tools loads rd names ts = (Inl (JSONDecodeError p), tr)
     \<and> (\<forall>e\<in>set tr. \<exists>q. e = OpenRead q)"
proof (induction names arbitrary: ts)
  case Nil
  then show ?case by (simp add: json_files_Nil)
next
  case (Cons n ns)
  show ?case
  proof (cases "endswith n ''.json''")
    case False
    with Cons show ?thesis by (simp add: json_files_Cons)
  next
    case True
    show ?thesis
    proof (cases "loads (rd (tool_path n))")
      case None
      with True show ?thesis by simp
    next
      case (Some j)
      with Cons.prems True have "those (map (\<lambda>n. loads (rd (tool_path n))) (json_files ns)) = None"
        by (auto simp: json_files_Cons split: option.splits)
      from Cons.IH [OF this, of "ts @ [Descriptor j]"] obtain p tr where
        "load_tools loads rd ns (ts @ [Descriptor j]) = (Inl (JSONDecodeError p), tr)"
        "\<forall>e\<in>set tr. \<exists>q. e = OpenRead q" by blast
      with True Some show ?thesis by simp
    qed
  qed
qed

lemma those_None_iff: "those xs = None \<longleftrightarrow> None \<in> set xs"
  by (induction xs) (auto split: option.splits)

lemma update_first_match_find:
  "update_first_match env opts agents =
     (case find (name_matches env) agents of
        None \<Rightarrow> (opts, [])
      | Some a \<Rightarrow> (opts\<lparr>assistant_id := Some (agent_id a)\<rparr>,
                   [UpdateAgent (opts\<lparr>assistant_id := Some (agent_id a)\<rparr>)]))"
  by (induction agents) auto

lemma find_first:
  "\<forall>b\<in>set pre. \<not> P b \<Longrightarrow> P a \<Longrightarrow> find P (pre @ a # post) = Some a"
  by (induction pre) auto

lemma provision_has_more:
  "has_more agents \<Longrightarrow> provision_agent be env agents opts = (Inl TooManyAgents, [])"
  by (simp add: provision_agent_def)

lemma provision_update:
  "\<not> has_more agents \<Longrightarrow> find (name_matches env) (data agents) = Some a \<Longrightarrow>
   provision_agent be env agents opts =
     (Inr (opts\<lparr>assistant_id := Some (agent_id a)\<rparr>),
      [UpdateAgent (opts\<lparr>assistant_id := Some (agent_id a)\<rparr>)])"
  by (simp add: provision_agent_def update_first_match_find)

lemma provision_create:
  "\<not> has_more agents \<Longrightarrow> find (name_matches env) (data agents) = None \<Longrightarrow>
   assistant_id opts = None \<Longrightarrow>
   provision_agent be env agents opts =
     (Inr (opts\<lparr>assistant_id := Some (agent_id (create_agent be opts))\<rparr>),
      [CreateAgent opts])"
  by (simp add: provision_agent_def update_first_match_find)

lemma load_tools_loaded:
  assumes "parsed_descriptors loads fs = Some ds"
  shows "load_tools loads (file_content fs) (listdir_tools fs) (tools (initial_options env)) =
           (Inr (tools (initial_options env) @ map Descriptor ds), descriptor_reads fs)"
  using assms load_tools_ok [where loads = loads and rd = "file_content fs"
      and names = "listdir_tools fs" and ts = "tools (initial_options env)" and ds = ds]
  unfolding parsed_descriptors_def descriptor_reads_def by simp

lemma startup_parse_error:
  assumes "parsed_descriptors loads fs = None"
  shows "\<exists>p tr. startup loads env fs be st =
           (Inl (JSONDecodeError p), [ListAgents 100, ListDir ''tools''] @ tr)
         \<and> (\<forall>e\<in>set tr. \<exists>q. e = OpenRead q)"
proof -
  from assms load_tools_fail [where loads = loads and rd = "file_content fs"
      and names = "listdir_tools fs" and ts = "tools (initial_options env)"]
  obtain p tr where
    "load_tools loads (file_content fs) (listdir_tools fs) (tools (initial_options env)) =
       (Inl (JSONDecodeError p), tr)"
    "\<forall>e\<in>set tr. \<exists>q. e = OpenRead q"
    unfolding parsed_descriptors_def by blast
  then show ?thesis by (simp add: startup_def)
qed

lemma startup_too_many:
  assumes "parsed_descriptors loads fs = Some ds" and "has_more (list_agents be 100)"
  shows "startup loads env fs be st =
           (Inl TooManyAgents, [ListAgents 100, ListDir ''tools''] @ descriptor_reads fs)"
  using assms load_tools_loaded [of loads fs ds env]
  by (simp add: startup_def provision_has_more descriptor_reads_def)

lemma startup_update:
  assumes "parsed_descriptors loads fs = Some ds" and "\<not> has_more (list_agents be 100)"
    and "find (name_matches env) (data (list_agents be 100)) = Some a"
  shows "startup loads env fs be st =
           (Inr \<lparr>app_states = st,
                 the_bot = \<lparr>bot_conversation_state = conversation_state st,
                            bot_user_state = user_state st,
                            bot_assistant_id = agent_id a\<rparr>\<rparr>,
            [ListAgents 100, ListDir ''tools''] @ descriptor_reads fs @
            [UpdateAgent ((loaded_options env ds)\<lparr>assistant_id := Some (agent_id a)\<rparr>),
             ConstructBot (agent_id a)])"
  using load_tools_loaded [OF assms(1), of env]
    provision_update [OF assms(2,3), of be "loaded_options env ds"]
  by (simp add: Let_def startup_def descriptor_reads_def loaded_options_def)

lemma startup_create:
  assumes "parsed_descriptors loads fs = Some ds" and "\<not> has_more (list_agents be 100)"
    and "find (name_matches env) (data (list_agents be 100)) = None"
  shows "startup loads env fs be st =
           (Inr \<lparr>app_states = st,
                 the_bot = \<lparr>bot_conversation_state = conversation_state st,
                            bot_user_state = user_state st,
                            bot_assistant_id = agent_id (create_agent be (loaded_options env ds))\<rparr>\<rparr>,
            [ListAgents 100, ListDir ''tools''] @ descriptor_reads fs @
            [CreateAgent (loaded_options env ds),
             ConstructBot (agent_id (create_agent be (loaded_options env ds)))])"
proof -
  have "assistant_id (loaded_options env ds) = None"
    by (simp add: loaded_options_def initial_options_def)
  from provision_create [OF assms(2,3) this, of be] load_tools_loaded [OF assms(1), of env]
  show ?thesis
    by (simp add: Let_def startup_def descriptor_reads_def loaded_options_def)
qed

subsection \<open>The concrete inputs\<close>

lemma endswith_examples:
  "endswith ''search.json'' ''.json''" "endswith ''bad.json'' ''.json''"
  "\<not> endswith ''README.md'' ''.json''"
  by (simp_all add: endswith_def)

lemma example_matches:
  "name_matches example_env agent_one" "name_matches example_env agent_two"
  "\<not> name_matches example_env agent_other"
  by (simp_all add: name_matches_def example_env_def agent_one_def agent_two_def
      agent_other_def getenv_def)

lemma parsed_example: "parsed_descriptors example_loads example_fs = Some [''{}'']"
  by (simp add: parsed_descriptors_def json_files_def example_fs_def endswith_examples
      example_loads_def tool_path_def)

lemma parsed_empty: "parsed_descriptors example_loads empty_fs = Some []"
  by (simp add: parsed_descriptors_def json_files_def empty_fs_def)

lemma example_agent_ids:
  "agent_id agent_one = ''asst_1''" "agent_id agent_two = ''asst_2''"
  "agent_id agent_other = ''asst_0''"
  by (simp_all add: agent_one_def agent_two_def agent_other_def)



lemma those_Some_map: "those xs = Some ys \<Longrightarrow> xs = map Some ys"
  by (induction xs arbitrary: ys) (auto split: option.splits)

lemma parsed_descriptors_set:
  assumes "parsed_descriptors loads fs = Some ds"
  shows "j \<in> set ds \<longleftrightarrow>
         (\<exists>n\<in>set (listdir_tools fs). endswith n ''.json''
            \<and> loads (file_content fs (tool_path n)) = Some j)"
proof -
  from assms have "map (\<lambda>n. loads (file_content fs (tool_path n)))
      (json_files (listdir_tools fs)) = map Some ds"
    unfolding parsed_descriptors_def by (rule those_Some_map)
  then have "(\<lambda>n. loads (file_content fs (tool_path n))) ` set (json_files (listdir_tools fs))
      = Some ` set ds"
    by (metis list.set_map)
  then have "Some j \<in> Some ` set ds \<longleftrightarrow>
      (\<exists>n\<in>set (json_files (listdir_tools fs)). loads (file_content fs (tool_path n)) = Some j)"
    by (metis (mono_tags, lifting) image_iff)
  then show ?thesis by (auto simp: json_files_def)
qed

lemma startup_agent_write:
  assumes "UpdateAgent opts \<in> set (snd (startup loads env fs be st))
         \<or> CreateAgent opts \<in> set (snd (startup loads env fs be st))"
  shows "\<exists>ds. parsed_descriptors loads fs = Some ds
           \<and> tools opts = tools (initial_options env) @ map Descriptor ds"
proof (cases "parsed_descriptors loads fs")
  case None
  from startup_parse_error [OF None, of env be st] assms show ?thesis by fastforce
next
  case (Some ds)
  show ?thesis
  proof (cases "has_more (list_agents be 100)")
    case True
    from startup_too_many [OF Some True, of env st] assms show ?thesis
      by (auto simp: descriptor_reads_def)
  next
    case False
    show ?thesis
    proof (cases "find (name_matches env) (data (list_agents be 100))")
      case None
      from startup_create [OF Some False None, where st = st] assms show ?thesis
        by (auto simp: Some descriptor_reads_def loaded_options_def)
    next
      case (Some a)
      from startup_update [OF \<open>parsed_descriptors loads fs = Some ds\<close> False Some, where st = st] assms
      show ?thesis
        by (auto simp: \<open>parsed_descriptors loads fs = Some ds\<close> descriptor_reads_def
            loaded_options_def)
    qed
  qed
qed

lemma startup_state:
  assumes "fst (startup loads env fs be st) = Inr app"
  shows "app_states app = st
         \<and> bot_user_state (the_bot app) = user_state st
         \<and> bot_conversation_state (the_bot app) = conversation_state st"
proof (cases "parsed_descriptors loads fs")
  case None
  from startup_parse_error [OF None, of env be st] assms show ?thesis by fastforce
next
  case (Some ds)
  show ?thesis
  proof (cases "has_more (list_agents be 100)")
    case True
    from startup_too_many [OF Some True, of env st] assms show ?thesis by simp
  next
    case False
    show ?thesis
    proof (cases "find (name_matches env) (data (list_agents be 100))")
      case None
      from startup_create [OF Some False None, where st = st] assms show ?thesis
        by auto
    next
      case (Some a)
      from startup_update [OF \<open>parsed_descriptors loads fs = Some ds\<close> False Some,
          where st = st] assms
      show ?thesis by auto
    qed
  qed
qed

lemma setup_state_memory:
  "\<not> truthy (getenv env ''AZURE_COSMOSDB_ENDPOINT'') \<Longrightarrow>
   setup_state new_client env cred =
     Inr \<lparr>heap = [MemoryStorage], user_state = UserState 0,
          conversation_state = ConversationState 0\<rparr>"
  by (simp add: setup_state_def make_storage_def alloc_def)

lemma setup_state_shape:
  assumes "setup_state new_client env cred = Inr st"
  shows "\<exists>s. make_storage new_client env cred = Inr s
           \<and> st = \<lparr>heap = [s], user_state = UserState 0,
                    conversation_state = ConversationState 0\<rparr>"
  using assms by (auto simp: setup_state_def alloc_def split: sum.splits)

lemma make_storage_memory:
  assumes "make_storage new_client env cred = Inr MemoryStorage"
  shows "\<not> truthy (getenv env ''AZURE_COSMOSDB_ENDPOINT'')"
  using assms by (auto simp: make_storage_def split: if_splits sum.splits)

lemma app_script_state:
  assumes "fst (app_script new_client loads env fs be) = Inr app"
  shows "setup_state new_client env
           \<lparr>managed_identity_client_id = getenv env ''MicrosoftAppId''\<rparr> = Inr (app_states app)
         \<and> bot_user_state (the_bot app) = user_state (app_states app)
         \<and> bot_conversation_state (the_bot app) = conversation_state (app_states app)"
proof (cases "setup_state new_client env
                \<lparr>managed_identity_client_id = getenv env ''MicrosoftAppId''\<rparr>")
  case (Inl e)
  with assms show ?thesis by (simp add: app_script_def)
next
  case (Inr st)
  with assms have "fst (startup loads env fs be st) = Inr app"
    by (simp add: app_script_def)
  from startup_state [OF this] Inr show ?thesis by simp
qed

lemma truthy_iff:
  "truthy v \<longleftrightarrow> \<not> (v = None \<or> v = Some [])"
  by (cases v) auto

subsection \<open>Which agent is updated\<close>

text \<open>
  Claim C9. When several listed agents share the configured agent name, the first of
  them in the order of the listing is selected: for a listing \<open>pre @ a # post\<close> in
  which no agent of \<open>pre\<close> has the configured name and \<open>a\<close> has it, the loop assigns
  the identifier of \<open>a\<close> and makes exactly one call, the update of \<open>a\<close>, whatever
  \<open>post\<close> holds; and the provisioning step on a complete listing makes that call and
  no other, so that the agents of \<open>post\<close> are neither updated nor looked at.
\<close>

theorem first_match_is_updated:
  assumes "\<forall>b\<in>set pre. \<not> name_matches env b" and "name_matches env a"
  shows "update_first_match env opts (pre @ a # post) =
           (opts\<lparr>assistant_id := Some (agent_id a)\<rparr>,
            [UpdateAgent (opts\<lparr>assistant_id := Some (agent_id a)\<rparr>)])
         \<and> provision_agent be env \<lparr>has_more = False, data = pre @ a # post\<rparr> opts =
           (Inr (opts\<lparr>assistant_id := Some (agent_id a)\<rparr>),
            [UpdateAgent (opts\<lparr>assistant_id := Some (agent_id a)\<rparr>)])"
proof -
  have f: "find (name_matches env) (pre @ a # post) = Some a"
    using assms by (rule find_first)
  then have "update_first_match env opts (pre @ a # post) =
           (opts\<lparr>assistant_id := Some (agent_id a)\<rparr>,
            [UpdateAgent (opts\<lparr>assistant_id := Some (agent_id a)\<rparr>)])"
    by (simp add: update_first_match_find)
  moreover have "provision_agent be env \<lparr>has_more = False, data = pre @ a # post\<rparr> opts =
           (Inr (opts\<lparr>assistant_id := Some (agent_id a)\<rparr>),
            [UpdateAgent (opts\<lparr>assistant_id := Some (agent_id a)\<rparr>)])"
    using f by (intro provision_update) simp_all
  ultimately show ?thesis by simp
qed

theorem first_match_is_updated_witness:
  "\<not> name_matches example_env agent_other
   \<and> name_matches example_env agent_one
   \<and> name_matches example_env agent_two
   \<and> update_first_match example_env (initial_options example_env :: string options)
        ([agent_other] @ agent_one # [agent_two]) =
        ((initial_options example_env)\<lparr>assistant_id := Some ''asst_1''\<rparr>,
         [UpdateAgent ((initial_options example_env)\<lparr>assistant_id := Some ''asst_1''\<rparr>)])"
proof -
  have h1: "\<forall>b\<in>set [agent_other]. \<not> name_matches example_env b"
    by (simp add: example_matches)
  have h2: "name_matches example_env agent_one"
    by (rule example_matches)
  have id: "agent_id agent_one = ''asst_1''"
    by (rule example_agent_ids)
  from first_match_is_updated [OF h1 h2, of "initial_options example_env" "[agent_two]"
      "example_backend two_same_named"] h2 example_matches(2,3) id
  show ?thesis by simp
qed

subsection \<open>Too many agents, and several agents of the same name\<close>

text \<open>
  Claim C1, as it is stated, fails where the configured name matches more than one
  listed agent: with the listing \<open>two_same_named\<close>, in which two agents have the
  configured name, the provisioning step does not fail; it updates the first of the
  two.
\<close>

theorem duplicate_names_do_not_fail:
  "length (filter (name_matches example_env) (data two_same_named)) = 2
   \<and> provision_agent (example_backend two_same_named) example_env two_same_named
        (initial_options example_env) =
      (Inr ((initial_options example_env)\<lparr>assistant_id := Some ''asst_1''\<rparr>),
       [UpdateAgent ((initial_options example_env)\<lparr>assistant_id := Some ''asst_1''\<rparr>)])"
  by (simp add: two_same_named_def example_matches provision_agent_def example_agent_ids)

text \<open>
  Claim C1, amended. When the listing reports \<open>has_more\<close>, the provisioning step raises
  with no call made, and the script as a whole ends with an exception, with no agent
  created or updated and no bot constructed. When the listing is complete and the
  configured name matches more than one listed agent, the step does not fail: it
  updates the first agent of that name, and only that one.
\<close>

theorem too_many_agents_raises:
  "(has_more agents \<longrightarrow>
      provision_agent be env agents opts = (Inl TooManyAgents, []))
   \<and> (has_more (list_agents be 100) \<longrightarrow>
        (\<exists>e tr. startup loads env fs be st = (Inl e, tr)
           \<and> (\<forall>ev\<in>set tr. \<not> is_agent_write ev \<and> \<not> is_bot_construction ev)))
   \<and> (\<not> has_more agents \<and> 1 < length (filter (name_matches env) (data agents)) \<longrightarrow>
        (\<exists>a. find (name_matches env) (data agents) = Some a
           \<and> provision_agent be env agents opts =
               (Inr (opts\<lparr>assistant_id := Some (agent_id a)\<rparr>),
                [UpdateAgent (opts\<lparr>assistant_id := Some (agent_id a)\<rparr>)])))"
proof (intro conjI impI)
  assume "has_more agents"
  then show "provision_agent be env agents opts = (Inl TooManyAgents, [])"
    by (rule provision_has_more)
next
  assume hm: "has_more (list_agents be 100)"
  show "\<exists>e tr. startup loads env fs be st = (Inl e, tr)
          \<and> (\<forall>ev\<in>set tr. \<not> is_agent_write ev \<and> \<not> is_bot_construction ev)"
  proof (cases "parsed_descriptors loads fs")
    case None
    from startup_parse_error [OF None, of env be st] show ?thesis by fastforce
  next
    case (Some ds)
    from startup_too_many [OF Some hm, of env st] show ?thesis
      by (auto simp: descriptor_reads_def)
  qed
next
  assume h: "\<not> has_more agents \<and> 1 < length (filter (name_matches env) (data agents))"
  then have "filter (name_matches env) (data agents) \<noteq> []" by auto
  then obtain a where "find (name_matches env) (data agents) = Some a"
    by (cases "find (name_matches env) (data agents)") (auto simp: find_None_iff filter_empty_conv)
  with h show "\<exists>a. find (name_matches env) (data agents) = Some a
           \<and> provision_agent be env agents opts =
               (Inr (opts\<lparr>assistant_id := Some (agent_id a)\<rparr>),
                [UpdateAgent (opts\<lparr>assistant_id := Some (agent_id a)\<rparr>)])"
    by (auto intro: provision_update)
qed

theorem too_many_agents_raises_witness:
  "has_more truncated_listing
   \<and> has_more (list_agents (example_backend truncated_listing) 100)
   \<and> provision_agent (example_backend truncated_listing) example_env truncated_listing
        (initial_options example_env) = (Inl TooManyAgents, [])
   \<and> (\<exists>e tr. startup example_loads example_env example_fs (example_backend truncated_listing) example_states
          = (Inl e, tr) \<and> list_all (\<lambda>ev. \<not> is_agent_write ev \<and> \<not> is_bot_construction ev) tr)
   \<and> \<not> has_more two_same_named
   \<and> 1 < length (filter (name_matches example_env) (data two_same_named))
   \<and> (\<exists>a. find (name_matches example_env) (data two_same_named) = Some a
        \<and> provision_agent (example_backend two_same_named) example_env two_same_named
             (initial_options example_env :: string options) =
            (Inr ((initial_options example_env)\<lparr>assistant_id := Some (agent_id a)\<rparr>),
             [UpdateAgent ((initial_options example_env)\<lparr>assistant_id := Some (agent_id a)\<rparr>)]))"
proof -
  have h1: "has_more truncated_listing"
    by (simp add: truncated_listing_def)
  have h2: "has_more (list_agents (example_backend truncated_listing) 100)"
    by (simp add: example_backend_def truncated_listing_def)
  have h3: "\<not> has_more two_same_named
      \<and> 1 < length (filter (name_matches example_env) (data two_same_named))"
    by (simp add: two_same_named_def example_matches)
  from too_many_agents_raises [of truncated_listing "example_backend truncated_listing"
      example_env "initial_options example_env" example_loads example_fs]
    too_many_agents_raises [of two_same_named "example_backend two_same_named"
      example_env "initial_options example_env" example_loads example_fs]
    h1 h2 h3
  show ?thesis by (simp add: list_all_iff)
qed

subsection \<open>Create or update, and the identifier the bot is given\<close>

text \<open>
  Claim C2, as it is stated, fails for a listing that reports \<open>has_more\<close>: the listing
  \<open>truncated_listing\<close> holds an agent with the configured name, and the step raises
  without calling \<open>update_agent\<close> and without binding an identifier.
\<close>

theorem truncated_listing_is_not_provisioned:
  "name_matches example_env agent_one
   \<and> data truncated_listing = [agent_one]
   \<and> provision_agent (example_backend truncated_listing) example_env truncated_listing
        (initial_options example_env) = (Inl TooManyAgents, [])
   \<and> startup example_loads example_env example_fs (example_backend truncated_listing) example_states =
        (Inl TooManyAgents,
         [ListAgents 100, ListDir ''tools'', OpenRead ''tools/search.json''])"
proof -
  have hm: "has_more (list_agents (example_backend truncated_listing) 100)"
    by (simp add: example_backend_def truncated_listing_def)
  have reads: "descriptor_reads example_fs = [OpenRead ''tools/search.json'']"
    by (simp add: descriptor_reads_def json_files_def example_fs_def endswith_examples
        tool_path_def)
  from startup_too_many [OF parsed_example hm, of example_env example_states] reads
  show ?thesis
    by (simp add: example_matches truncated_listing_def provision_agent_def)
qed

text \<open>
  Claim C2, amended. When the listing does not report \<open>has_more\<close> and every descriptor
  file of the tools directory parses, the script ends normally with exactly one call
  that writes an agent: if some listed agent has the configured name, the call is
  \<open>update_agent\<close> with the identifier of the first such agent (and no agent is created);
  otherwise it is \<open>create_agent\<close>, called once. In both cases the bot is constructed,
  once, with the identifier bound to \<open>options["assistant_id"]\<close>: that of the matched
  agent, or that of the agent \<open>create_agent\<close> returned.
\<close>

theorem create_or_update:
  assumes "\<not> has_more (list_agents be 100)"
    and "parsed_descriptors loads fs = Some ds"
  shows "\<exists>app aid.
           fst (startup loads env fs be st) = Inr app
         \<and> bot_assistant_id (the_bot app) = aid
         \<and> filter is_bot_construction (snd (startup loads env fs be st)) = [ConstructBot aid]
         \<and> (case find (name_matches env) (data (list_agents be 100)) of
               Some a \<Rightarrow>
                 aid = agent_id a
               \<and> filter is_agent_write (snd (startup loads env fs be st)) =
                   [UpdateAgent ((loaded_options env ds)\<lparr>assistant_id := Some aid\<rparr>)]
             | None \<Rightarrow>
                 aid = agent_id (create_agent be (loaded_options env ds))
               \<and> filter is_agent_write (snd (startup loads env fs be st)) =
                   [CreateAgent (loaded_options env ds)])"
proof (cases "find (name_matches env) (data (list_agents be 100))")
  case None
  from startup_create [OF assms(2,1) None, where st = st] show ?thesis
    by (simp add: None descriptor_reads_def filter_map comp_def)
next
  case (Some a)
  from startup_update [OF assms(2,1) Some, where st = st] show ?thesis
    by (simp add: Some descriptor_reads_def filter_map comp_def)
qed

theorem create_or_update_witness:
  "\<not> has_more (list_agents (example_backend no_match_listing) 100)
   \<and> parsed_descriptors example_loads example_fs = Some [''{}'']
   \<and> (\<exists>app aid.
         fst (startup example_loads example_env example_fs (example_backend no_match_listing) example_states)
           = Inr app
       \<and> bot_assistant_id (the_bot app) = aid
       \<and> aid = ''asst_new''
       \<and> filter is_agent_write
            (snd (startup example_loads example_env example_fs
                    (example_backend no_match_listing) example_states)) =
            [CreateAgent (loaded_options example_env [''{}''])])"
proof -
  have h: "\<not> has_more (list_agents (example_backend no_match_listing) 100)"
    by (simp add: example_backend_def no_match_listing_def)
  have f: "find (name_matches example_env)
             (data (list_agents (example_backend no_match_listing) 100)) = None"
    by (simp add: example_backend_def no_match_listing_def example_matches)
  have c: "agent_id (create_agent (example_backend no_match_listing)
             (loaded_options example_env [''{}''])) = ''asst_new''"
    by (simp add: example_backend_def)
  from create_or_update [OF h parsed_example, of example_env] h parsed_example
  show ?thesis by (auto simp: f c)
qed

subsection \<open>A descriptor file that is not valid JSON\<close>

text \<open>
  Claim C10. If some file of the tools directory whose name ends in \<open>.json\<close> does not
  hold valid JSON, the script ends with the uncaught exception of \<open>json.loads\<close>, and up
  to that point it has created no agent, updated none and not constructed the bot.
\<close>

theorem invalid_descriptor_aborts_startup:
  assumes "n \<in> set (listdir_tools fs)" and "endswith n ''.json''"
    and "loads (file_content fs (tool_path n)) = None"
  shows "\<exists>p tr. startup loads env fs be st = (Inl (JSONDecodeError p), tr)
           \<and> (\<forall>ev\<in>set tr. \<not> is_agent_write ev \<and> \<not> is_bot_construction ev)"
proof -
  from assms have "n \<in> set (json_files (listdir_tools fs))"
    by (simp add: json_files_def)
  with assms(3) have "None \<in> set (map (\<lambda>n. loads (file_content fs (tool_path n)))
      (json_files (listdir_tools fs)))"
    by (metis (mono_tags, lifting) image_eqI list.set_map)
  then have "parsed_descriptors loads fs = None"
    by (simp add: parsed_descriptors_def those_None_iff)
  from startup_parse_error [OF this, of env be st] show ?thesis by fastforce
qed

theorem invalid_descriptor_aborts_startup_witness:
  "''bad.json'' \<in> set (listdir_tools broken_fs)
   \<and> endswith ''bad.json'' ''.json''
   \<and> example_loads (file_content broken_fs (tool_path ''bad.json'')) = None
   \<and> (\<exists>p tr. startup example_loads example_env broken_fs (example_backend no_match_listing) example_states
          = (Inl (JSONDecodeError p), tr)
        \<and> list_all (\<lambda>ev. \<not> is_agent_write ev \<and> \<not> is_bot_construction ev) tr)"
proof -
  have h1: "''bad.json'' \<in> set (listdir_tools broken_fs)"
    by (simp add: broken_fs_def)
  have h2: "endswith ''bad.json'' ''.json''"
    by (rule endswith_examples)
  have h3: "example_loads (file_content broken_fs (tool_path ''bad.json'')) = None"
    by (simp add: broken_fs_def tool_path_def example_loads_def)
  from invalid_descriptor_aborts_startup [where n = "''bad.json''" and fs = broken_fs
      and loads = example_loads and env = example_env
      and be = "example_backend no_match_listing"] h1 h2 h3
  show ?thesis by (simp add: list_all_iff)
qed

subsection \<open>The tool manifest\<close>

text \<open>
  Claim C4. The tool manifest is assembled once, from the two definitions of the SDK
  (code interpreter, then file search) followed by one entry for each file of the tools
  directory whose name ends in \<open>.json\<close>, in the order of the listing, each being the
  parsed content of its file; the other files of the directory are not read and add
  nothing. The directory is listed once and each descriptor file is read once, all of
  it before the agent is created or updated; every call that creates or updates the
  agent is given that list, and nothing after the loop touches the file system. (When
  a descriptor file does not parse, no manifest exists and no such call is made.)
\<close>

theorem tool_manifest_assembled_once:
  "case parsed_descriptors loads fs of
     Some ds \<Rightarrow>
       (\<exists>tr2. snd (startup loads env fs be st) =
                [ListAgents 100, ListDir ''tools'']
                @ map (\<lambda>n. OpenRead (tool_path n))
                    (filter (\<lambda>n. endswith n ''.json'') (listdir_tools fs))
                @ tr2
          \<and> (\<forall>ev\<in>set tr2. \<not> is_fs_access ev)
          \<and> (\<forall>opts. UpdateAgent opts \<in> set tr2 \<or> CreateAgent opts \<in> set tr2 \<longrightarrow>
                tools opts =
                  CodeInterpreterTool_definitions @ FileSearchTool_definitions
                  @ map Descriptor ds))
   | None \<Rightarrow> (\<forall>ev\<in>set (snd (startup loads env fs be st)). \<not> is_agent_write ev)"
proof (cases "parsed_descriptors loads fs")
  case None
  from startup_parse_error [OF None, of env be st] show ?thesis
    by (fastforce simp: None)
next
  case (Some ds)
  have reads: "descriptor_reads fs =
      (map (\<lambda>n. OpenRead (tool_path n))
         (filter (\<lambda>n. endswith n ''.json'') (listdir_tools fs)) :: 'a event list)"
    by (simp add: descriptor_reads_def json_files_def)
  have tl: "tools (loaded_options env ds) =
      CodeInterpreterTool_definitions @ FileSearchTool_definitions @ map Descriptor ds"
    by (simp add: loaded_options_def initial_options_def)
  show ?thesis
  proof (cases "has_more (list_agents be 100)")
    case True
    from startup_too_many [OF Some True, of env st] show ?thesis
      by (simp add: Some reads)
  next
    case False
    show ?thesis
    proof (cases "find (name_matches env) (data (list_agents be 100))")
      case None
      from startup_create [OF Some False None, where st = st] show ?thesis
        by (simp add: Some reads tl)
    next
      case (Some a)
      from startup_update [OF \<open>parsed_descriptors loads fs = Some ds\<close> False Some, where st = st]
      show ?thesis
        by (simp add: \<open>parsed_descriptors loads fs = Some ds\<close> reads tl)
    qed
  qed
qed

theorem tool_manifest_assembled_once_witness:
  "parsed_descriptors example_loads example_fs = Some [''{}'']
   \<and> filter (\<lambda>n. endswith n ''.json'') (listdir_tools example_fs) = [''search.json'']
   \<and> (\<exists>tr2. snd (startup example_loads example_env example_fs
                    (example_backend two_same_named) example_states) =
               [ListAgents 100, ListDir ''tools'', OpenRead ''tools/search.json''] @ tr2
         \<and> list_all (\<lambda>ev. \<not> is_fs_access ev) tr2
         \<and> (\<exists>opts. UpdateAgent opts \<in> set tr2
               \<and> tools opts =
                   [CodeInterpreterToolDefinition, FileSearchToolDefinition,
                    Descriptor ''{}'']))"
proof -
  have js: "filter (\<lambda>n. endswith n ''.json'') (listdir_tools example_fs) = [''search.json'']"
    by (simp add: example_fs_def endswith_examples)
  have hm: "\<not> has_more (list_agents (example_backend two_same_named) 100)"
    by (simp add: example_backend_def two_same_named_def)
  have f: "find (name_matches example_env)
             (data (list_agents (example_backend two_same_named) 100)) = Some agent_one"
    by (simp add: example_backend_def two_same_named_def example_matches)
  have tr: "snd (startup example_loads example_env example_fs
                   (example_backend two_same_named) example_states) =
      [ListAgents 100, ListDir ''tools''] @ descriptor_reads example_fs @
      [UpdateAgent ((loaded_options example_env [''{}''])
                      \<lparr>assistant_id := Some (agent_id agent_one)\<rparr>),
       ConstructBot (agent_id agent_one)]"
    using startup_update [OF parsed_example hm f, where st = example_states] by simp
  from tool_manifest_assembled_once [where loads = example_loads and fs = example_fs
      and env = example_env and be = "example_backend two_same_named"
      and st = example_states]
  obtain tr2 where t2:
    "snd (startup example_loads example_env example_fs (example_backend two_same_named) example_states) =
       [ListAgents 100, ListDir ''tools'', OpenRead ''tools/search.json''] @ tr2"
    "\<forall>ev\<in>set tr2. \<not> is_fs_access ev"
    "\<forall>opts. UpdateAgent opts \<in> set tr2 \<or> CreateAgent opts \<in> set tr2 \<longrightarrow>
        tools opts = CodeInterpreterTool_definitions @ FileSearchTool_definitions
          @ map Descriptor [''{}'']"
    by (auto simp: parsed_example js tool_path_def)
  from t2(1) tr have "tr2 =
      [UpdateAgent ((loaded_options example_env [''{}''])
                      \<lparr>assistant_id := Some (agent_id agent_one)\<rparr>),
       ConstructBot (agent_id agent_one)]"
    by (simp add: descriptor_reads_def json_files_def js tool_path_def)
  then have "UpdateAgent ((loaded_options example_env [''{}''])
                      \<lparr>assistant_id := Some (agent_id agent_one)\<rparr>) \<in> set tr2"
    by simp
  with t2 show ?thesis
    by (auto simp: parsed_example js list_all_iff CodeInterpreterTool_definitions_def
        FileSearchTool_definitions_def)
qed

subsection \<open>The classes of tools in the manifest\<close>

text \<open>
  Claim C5, as it is stated, fails when the tools directory holds no descriptor: the
  agent is then created with the two definitions of the SDK only, and the manifest has
  neither a web-search tool nor a directory-lookup tool, however descriptors are
  classified.
\<close>

theorem manifest_without_descriptors:
  "snd (startup example_loads example_env empty_fs (example_backend no_match_listing) example_states) =
     [ListAgents 100, ListDir ''tools'', CreateAgent (loaded_options example_env []),
      ConstructBot ''asst_new'']
   \<and> tools (loaded_options example_env [] :: string options) =
       [CodeInterpreterToolDefinition, FileSearchToolDefinition]
   \<and> \<not> has_tool_class example_class WebSearch
         (tools (loaded_options example_env [] :: string options))
   \<and> \<not> has_tool_class example_class DirectoryLookup
         (tools (loaded_options example_env [] :: string options))"
proof -
  have hm: "\<not> has_more (list_agents (example_backend no_match_listing) 100)"
    by (simp add: example_backend_def no_match_listing_def)
  have f: "find (name_matches example_env)
             (data (list_agents (example_backend no_match_listing) 100)) = None"
    by (simp add: example_backend_def no_match_listing_def example_matches)
  have reads: "descriptor_reads empty_fs = []"
    by (simp add: descriptor_reads_def json_files_def empty_fs_def)
  have c: "agent_id (create_agent (example_backend no_match_listing)
             (loaded_options example_env [])) = ''asst_new''"
    by (simp add: example_backend_def)
  have tl: "tools (loaded_options example_env [] :: string options) =
       [CodeInterpreterToolDefinition, FileSearchToolDefinition]"
    by (simp add: loaded_options_def initial_options_def CodeInterpreterTool_definitions_def
        FileSearchTool_definitions_def)
  from startup_create [OF parsed_empty hm f, where st = example_states] show ?thesis
    by (simp add: reads c tl has_tool_class_def)
qed

text \<open>
  Claim C5, amended. The tool manifest handed to agent create or update always has a
  code-execution tool and a file-search tool, the two definitions of the SDK. It has a
  tool of any other class, web search and directory lookup among them, exactly when
  some file of the tools directory whose name ends in \<open>.json\<close> holds a descriptor of
  that class.
\<close>

theorem manifest_tool_classes:
  assumes "UpdateAgent opts \<in> set (snd (startup loads env fs be st))
         \<or> CreateAgent opts \<in> set (snd (startup loads env fs be st))"
  shows "has_tool_class cl c (tools opts) \<longleftrightarrow>
           c = CodeExecution \<or> c = FileSearch
         \<or> (\<exists>n\<in>set (listdir_tools fs). endswith n ''.json''
              \<and> (\<exists>j. loads (file_content fs (tool_path n)) = Some j \<and> cl j = c))"
proof -
  from startup_agent_write [OF assms] obtain ds where
    p: "parsed_descriptors loads fs = Some ds" and
    t: "tools opts = tools (initial_options env) @ map Descriptor ds" by blast
  have "has_tool_class cl c (tools opts) \<longleftrightarrow>
          c = CodeExecution \<or> c = FileSearch \<or> (\<exists>j\<in>set ds. cl j = c)"
    by (auto simp: t has_tool_class_def initial_options_def CodeInterpreterTool_definitions_def
        FileSearchTool_definitions_def)
  also have "(\<exists>j\<in>set ds. cl j = c) \<longleftrightarrow>
      (\<exists>n\<in>set (listdir_tools fs). endswith n ''.json''
         \<and> (\<exists>j. loads (file_content fs (tool_path n)) = Some j \<and> cl j = c))"
    using parsed_descriptors_set [OF p] by blast
  finally show ?thesis .
qed

theorem manifest_tool_classes_witness:
  "CreateAgent (loaded_options example_env [''{}''])
     \<in> set (snd (startup example_loads example_env example_fs
                   (example_backend no_match_listing) example_states))
   \<and> has_tool_class example_class CodeExecution (tools (loaded_options example_env [''{}'']))
   \<and> has_tool_class example_class FileSearch (tools (loaded_options example_env [''{}'']))
   \<and> has_tool_class example_class WebSearch (tools (loaded_options example_env [''{}'']))
   \<and> \<not> has_tool_class example_class DirectoryLookup
         (tools (loaded_options example_env [''{}'']))"
proof -
  have hm: "\<not> has_more (list_agents (example_backend no_match_listing) 100)"
    by (simp add: example_backend_def no_match_listing_def)
  have f: "find (name_matches example_env)
             (data (list_agents (example_backend no_match_listing) 100)) = None"
    by (simp add: example_backend_def no_match_listing_def example_matches)
  have h: "CreateAgent (loaded_options example_env [''{}''])
     \<in> set (snd (startup example_loads example_env example_fs
                   (example_backend no_match_listing) example_states))"
    using startup_create [OF parsed_example hm f, where st = example_states] by simp
  then have h': "UpdateAgent (loaded_options example_env [''{}''])
       \<in> set (snd (startup example_loads example_env example_fs
                     (example_backend no_match_listing) example_states))
     \<or> CreateAgent (loaded_options example_env [''{}''])
       \<in> set (snd (startup example_loads example_env example_fs
                     (example_backend no_match_listing) example_states))" by simp
  have ex: "(\<exists>n\<in>set (listdir_tools example_fs). endswith n ''.json''
              \<and> (\<exists>j. example_loads (file_content example_fs (tool_path n)) = Some j
                    \<and> example_class j = c)) \<longleftrightarrow> c = WebSearch" for c
    by (auto simp: example_fs_def endswith_examples example_class_def example_loads_def
        tool_path_def)
  from manifest_tool_classes [OF h', of example_class] h ex
  show ?thesis by simp
qed

subsection \<open>The storage behind the two state objects\<close>

text \<open>
  Claim C3, as it is stated, fails when \<open>AZURE_COSMOSDB_ENDPOINT\<close> is set to the empty
  string: the variable is set, and the storage is the in-memory one, since the script
  tests the truth value of the variable.
\<close>

theorem empty_endpoint_gives_memory_storage:
  "getenv empty_endpoint_env ''AZURE_COSMOSDB_ENDPOINT'' = Some []
   \<and> make_storage rejecting_client empty_endpoint_env no_credential = Inr MemoryStorage
   \<and> setup_state rejecting_client empty_endpoint_env no_credential =
       Inr \<lparr>heap = [MemoryStorage], user_state = UserState 0,
            conversation_state = ConversationState 0\<rparr>"
  by (simp add: empty_endpoint_env_def getenv_def make_storage_def setup_state_def alloc_def)

text \<open>
  Claim C3, amended. If \<open>AZURE_COSMOSDB_ENDPOINT\<close> is absent or set to the empty string,
  the storage is the in-memory one, and in no other case is it the in-memory one.
  Whenever the storage set-up of lines 76--93 completes, exactly one storage object has
  been built and \<open>UserState\<close> and \<open>ConversationState\<close> hold the same reference to it; when
  the script ends normally, these are the state objects of the application and of the
  bot. (What a non-empty value of the variable builds is left open here: on that path
  line 87 calls the constructor of the Cosmos client, which can raise.)
\<close>

theorem storage_selection:
  "(getenv env ''AZURE_COSMOSDB_ENDPOINT'' = None
      \<or> getenv env ''AZURE_COSMOSDB_ENDPOINT'' = Some [] \<longrightarrow>
        setup_state new_client env cred =
          Inr \<lparr>heap = [MemoryStorage], user_state = UserState 0,
               conversation_state = ConversationState 0\<rparr>)
   \<and> (\<forall>st. setup_state new_client env cred = Inr st \<longrightarrow>
          length (heap st) = 1
        \<and> user_state st = UserState (state_storage (user_state st))
        \<and> conversation_state st = ConversationState (state_storage (conversation_state st))
        \<and> state_storage (user_state st) = state_storage (conversation_state st)
        \<and> state_storage (user_state st) < length (heap st)
        \<and> (heap st ! state_storage (user_state st) = MemoryStorage \<longrightarrow>
              getenv env ''AZURE_COSMOSDB_ENDPOINT'' = None
            \<or> getenv env ''AZURE_COSMOSDB_ENDPOINT'' = Some []))
   \<and> (\<forall>app. fst (app_script new_client loads env fs be) = Inr app \<longrightarrow>
          setup_state new_client env
            \<lparr>managed_identity_client_id = getenv env ''MicrosoftAppId''\<rparr> = Inr (app_states app)
        \<and> bot_user_state (the_bot app) = user_state (app_states app)
        \<and> bot_conversation_state (the_bot app) = conversation_state (app_states app))"
proof (intro conjI allI impI)
  assume "getenv env ''AZURE_COSMOSDB_ENDPOINT'' = None
      \<or> getenv env ''AZURE_COSMOSDB_ENDPOINT'' = Some []"
  then have "\<not> truthy (getenv env ''AZURE_COSMOSDB_ENDPOINT'')"
    by (simp add: truthy_iff)
  then show "setup_state new_client env cred =
          Inr \<lparr>heap = [MemoryStorage], user_state = UserState 0,
               conversation_state = ConversationState 0\<rparr>"
    by (rule setup_state_memory)
next
  fix st
  assume a: "setup_state new_client env cred = Inr st"
  from setup_state_shape [OF a] obtain s where
    m: "make_storage new_client env cred = Inr s" and
    st: "st = \<lparr>heap = [s], user_state = UserState 0, conversation_state = ConversationState 0\<rparr>"
    by blast
  from st show "length (heap st) = 1"
    and "user_state st = UserState (state_storage (user_state st))"
    and "conversation_state st = ConversationState (state_storage (conversation_state st))"
    and "state_storage (user_state st) = state_storage (conversation_state st)"
    and "state_storage (user_state st) < length (heap st)"
    by simp_all
  assume "heap st ! state_storage (user_state st) = MemoryStorage"
  with st m have "make_storage new_client env cred = Inr MemoryStorage" by simp
  from make_storage_memory [OF this]
  show "getenv env ''AZURE_COSMOSDB_ENDPOINT'' = None
      \<or> getenv env ''AZURE_COSMOSDB_ENDPOINT'' = Some []"
    by (simp add: truthy_iff)
next
  fix app
  assume "fst (app_script new_client loads env fs be) = Inr app"
  from app_script_state [OF this]
  show "setup_state new_client env
            \<lparr>managed_identity_client_id = getenv env ''MicrosoftAppId''\<rparr> = Inr (app_states app)"
    and "bot_user_state (the_bot app) = user_state (app_states app)"
    and "bot_conversation_state (the_bot app) = conversation_state (app_states app)"
    by simp_all
qed

theorem storage_selection_witness:
  "getenv example_env ''AZURE_COSMOSDB_ENDPOINT'' = None
   \<and> setup_state rejecting_client example_env no_credential = Inr example_states
   \<and> getenv empty_endpoint_env ''AZURE_COSMOSDB_ENDPOINT'' = Some []
   \<and> setup_state rejecting_client empty_endpoint_env no_credential = Inr example_states
   \<and> length (heap example_states) = 1
   \<and> state_storage (user_state example_states) = state_storage (conversation_state example_states)
   \<and> heap example_states ! state_storage (user_state example_states) = MemoryStorage
   \<and> (\<exists>app. fst (app_script rejecting_client example_loads example_env example_fs
                    (example_backend no_match_listing)) = Inr app
         \<and> app_states app = example_states
         \<and> bot_user_state (the_bot app) = UserState 0
         \<and> bot_conversation_state (the_bot app) = ConversationState 0)"
proof -
  have h1: "getenv example_env ''AZURE_COSMOSDB_ENDPOINT'' = None"
    by (simp add: example_env_def getenv_def)
  have h2: "getenv empty_endpoint_env ''AZURE_COSMOSDB_ENDPOINT'' = Some []"
    by (simp add: empty_endpoint_env_def getenv_def)
  have cr: "\<lparr>managed_identity_client_id = getenv example_env ''MicrosoftAppId''\<rparr> = no_credential"
    by (simp add: example_env_def getenv_def no_credential_def)
  note inst1 = storage_selection [where env = example_env and new_client = rejecting_client
      and cred = no_credential and loads = example_loads and fs = example_fs
      and be = "example_backend no_match_listing"]
  note inst2 = storage_selection [where env = empty_endpoint_env
      and new_client = rejecting_client and cred = no_credential and loads = example_loads
      and fs = example_fs and be = "example_backend no_match_listing"]
  from inst1 h1 have s1: "setup_state rejecting_client example_env no_credential =
      Inr example_states"
    by (simp add: example_states_def)
  from inst2 h2 have s2: "setup_state rejecting_client empty_endpoint_env no_credential =
      Inr example_states"
    by (simp add: example_states_def)
  have hm: "\<not> has_more (list_agents (example_backend no_match_listing) 100)"
    by (simp add: example_backend_def no_match_listing_def)
  have f: "find (name_matches example_env)
             (data (list_agents (example_backend no_match_listing) 100)) = None"
    by (simp add: example_backend_def no_match_listing_def example_matches)
  have "\<exists>app. fst (app_script rejecting_client example_loads example_env example_fs
                    (example_backend no_match_listing)) = Inr app
         \<and> app_states app = example_states
         \<and> bot_user_state (the_bot app) = UserState 0
         \<and> bot_conversation_state (the_bot app) = ConversationState 0"
    using startup_create [OF parsed_example hm f, where st = example_states] s1
    by (simp add: app_script_def cr example_states_def)
  with h1 h2 s1 s2 show ?thesis
    by (simp add: example_states_def)
qed

text \<open>
  With a client constructor that raises, as the call of line 87 does when its arguments
  do not fit the constructor, a non-empty \<open>AZURE_COSMOSDB_ENDPOINT\<close> ends the script in
  the storage set-up: no storage and no state object is built, and no agent is listed,
  created or updated.
\<close>

lemma rejected_client_ends_script:
  "app_script rejecting_client example_loads cosmos_env example_fs
     (example_backend no_match_listing) = (Inl (TypeError ''CosmosClient''), [])"
  by (simp add: app_script_def setup_state_def make_storage_def rejecting_client_def
      cosmos_env_def getenv_def)

section \<open>Properties of the Agent Turn Orchestrator\<close>

subsection \<open>Thread resolution\<close>

lemma resolve_thread_existing:
  "store w c = Some (s, v) \<Longrightarrow> resolve_thread c w = Inr (thread s, w)"
  by (simp add: resolve_thread_def store_get_def)

lemma resolve_thread_new:
  "store w c = None \<Longrightarrow>
   resolve_thread c w =
     Inr (length (threads w),
          w\<lparr>threads := threads w @ [(c, [])],
            store := (store w)(c \<mapsto> (\<lparr>thread = length (threads w)\<rparr>, Suc 0))\<rparr>)"
  by (simp add: resolve_thread_def store_get_def create_thread_def store_put_def
      current_version_def)

lemma threads_of_append_message [simp]:
  "threads_of c (append_message t m w) = threads_of c w"
  by (auto simp: threads_of_def append_message_def nth_list_update intro!: filter_cong)

lemma store_append_message [simp]: "store (append_message t m w) = store w"
  by (simp add: append_message_def)

lemma threads_of_store_update [simp]: "threads_of c (w\<lparr>store := st\<rparr>) = threads_of c w"
  by (simp add: threads_of_def)

lemma threads_of_new_thread:
  "threads_of c (w\<lparr>threads := threads w @ [(c', [])]\<rparr>) =
     threads_of c w @ (if c = c' then [length (threads w)] else [])"
  by (auto simp: threads_of_def nth_append intro!: filter_cong)

lemma begin_turn_existing:
  "store w c = Some (s, v) \<Longrightarrow>
   begin_turn c m w = Inr (thread s, append_message (thread s) m w)"
  by (simp add: begin_turn_def resolve_thread_existing)

lemma begin_turn_new:
  "store w c = None \<Longrightarrow>
   begin_turn c m w =
     Inr (length (threads w),
          append_message (length (threads w)) m
            (w\<lparr>threads := threads w @ [(c, [])],
              store := (store w)(c \<mapsto> (\<lparr>thread = length (threads w)\<rparr>, Suc 0))\<rparr>))"
  by (simp add: begin_turn_def resolve_thread_new)

lemma begin_turn_total: "\<exists>t w1. begin_turn c m w = Inr (t, w1)"
  by (cases "store w c") (auto simp: begin_turn_existing begin_turn_new)

lemma begin_turn_persists:
  assumes "begin_turn c m w = Inr (t, w1)"
  shows "\<exists>v. store w1 c = Some (\<lparr>thread = t\<rparr>, v)"
proof (cases "store w c")
  case None
  with assms show ?thesis by (auto simp: begin_turn_new)
next
  case (Some sv)
  obtain s v where "sv = (s, v)" by (cases sv)
  with Some assms show ?thesis by (cases s) (auto simp: begin_turn_existing)
qed

lemma begin_turn_keeps_session:
  assumes "begin_turn c' m w = Inr (t, w1)" and "store w c = Some (s, v)"
  shows "store w1 c = Some (s, v)"
proof (cases "store w c'")
  case None
  with assms show ?thesis by (auto simp: begin_turn_new)
next
  case (Some sv)
  obtain s' v' where "sv = (s', v')" by (cases sv)
  with Some assms show ?thesis by (auto simp: begin_turn_existing)
qed

lemma begin_turn_invariant:
  assumes "begin_turn c' m w = Inr (t, w1)" and "thread_invariant w"
  shows "thread_invariant w1"
proof (cases "store w c'")
  case None
  with assms show ?thesis
    by (auto simp: begin_turn_new thread_invariant_def threads_of_new_thread)
next
  case (Some sv)
  obtain s' v' where "sv = (s', v')" by (cases sv)
  with Some assms show ?thesis
    by (auto simp: begin_turn_existing thread_invariant_def)
qed

lemma run_turns_keeps_session:
  "store w c = Some (s, v) \<Longrightarrow> store (run_turns turns w) c = Some (s, v)"
proof (induction turns arbitrary: w)
  case Nil
  then show ?case by simp
next
  case (Cons cm turns)
  obtain c' m where cm: "cm = (c', m)" by (cases cm)
  from begin_turn_total obtain t w1 where b: "begin_turn c' m w = Inr (t, w1)" by blast
  from begin_turn_keeps_session [OF b Cons.prems] have "store w1 c = Some (s, v)" .
  from Cons.IH [OF this] b cm show ?case by simp
qed

lemma run_turns_invariant:
  "thread_invariant w \<Longrightarrow> thread_invariant (run_turns turns w)"
proof (induction turns arbitrary: w)
  case Nil
  then show ?case by simp
next
  case (Cons cm turns)
  obtain c' m where cm: "cm = (c', m)" by (cases cm)
  from begin_turn_total obtain t w1 where b: "begin_turn c' m w = Inr (t, w1)" by blast
  from begin_turn_invariant [OF b Cons.prems] have "thread_invariant w1" .
  from Cons.IH [OF this] b cm show ?case by simp
qed

lemma initial_world_invariant: "thread_invariant initial_world"
  by (simp add: thread_invariant_def initial_world_def threads_of_def)

text \<open>
  Claim C6. After any history of turns, a turn of a conversation runs on a Thread \<open>t\<close>;
  from then on, whatever further turns are processed (of this conversation or of
  others), every turn of the conversation runs on the same \<open>t\<close>, and \<open>t\<close> is the only
  Thread that was ever created for the conversation: repeated calls create no
  duplicate, and the conversation has at most one Thread at any time.
\<close>

theorem thread_reference_is_stable:
  "\<exists>t w1. begin_turn c m (run_turns turns initial_world) = Inr (t, w1)
     \<and> length (threads_of c (run_turns turns initial_world)) \<le> 1
     \<and> (\<forall>more m'. \<exists>w2. begin_turn c m' (run_turns more w1) = Inr (t, w2)
            \<and> threads_of c w2 = [t])"
proof -
  let ?w = "run_turns turns initial_world"
  have inv: "thread_invariant ?w"
    using initial_world_invariant by (rule run_turns_invariant)
  then have le: "length (threads_of c ?w) \<le> 1"
    by (auto simp: thread_invariant_def split: option.splits)
  from begin_turn_total obtain t w1 where b: "begin_turn c m ?w = Inr (t, w1)" by blast
  from begin_turn_persists [OF b] obtain v where s1: "store w1 c = Some (\<lparr>thread = t\<rparr>, v)"
    by blast
  from begin_turn_invariant [OF b inv] have inv1: "thread_invariant w1" .
  have "\<exists>w2. begin_turn c m' (run_turns more w1) = Inr (t, w2) \<and> threads_of c w2 = [t]"
    for more m'
  proof -
    let ?w' = "run_turns more w1"
    from run_turns_keeps_session [OF s1] have s': "store ?w' c = Some (\<lparr>thread = t\<rparr>, v)" .
    from inv1 have inv': "thread_invariant ?w'" by (rule run_turns_invariant)
    from begin_turn_existing [OF s', of m']
    have b': "begin_turn c m' ?w' = Inr (t, append_message t m' ?w')" by simp
    from inv' s' have "threads_of c ?w' = [t]" by (simp add: thread_invariant_def)
    with b' show ?thesis by simp
  qed
  with b le show ?thesis by blast
qed

theorem thread_reference_is_stable_witness:
  "begin_turn ''conv-a'' ''hello'' (run_turns [(''conv-b'', ''hi'')] initial_world) =
     Inr (1, \<lparr>store = [''conv-b'' \<mapsto> (\<lparr>thread = 0\<rparr>, 1), ''conv-a'' \<mapsto> (\<lparr>thread = 1\<rparr>, 1)],
              threads = [(''conv-b'', [''hi'']), (''conv-a'', [''hello''])]\<rparr>)
   \<and> (\<exists>w2. begin_turn ''conv-a'' ''again''
          (run_turns [(''conv-b'', ''more''), (''conv-a'', ''second'')]
             \<lparr>store = [''conv-b'' \<mapsto> (\<lparr>thread = 0\<rparr>, 1), ''conv-a'' \<mapsto> (\<lparr>thread = 1\<rparr>, 1)],
              threads = [(''conv-b'', [''hi'']), (''conv-a'', [''hello''])]\<rparr>) = Inr (1, w2)
        \<and> threads_of ''conv-a'' w2 = [1])"
proof -
  have e: "begin_turn ''conv-a'' ''hello'' (run_turns [(''conv-b'', ''hi'')] initial_world) =
     Inr (1, \<lparr>store = [''conv-b'' \<mapsto> (\<lparr>thread = 0\<rparr>, 1), ''conv-a'' \<mapsto> (\<lparr>thread = 1\<rparr>, 1)],
              threads = [(''conv-b'', [''hi'']), (''conv-a'', [''hello''])]\<rparr>)"
    by (simp add: begin_turn_def resolve_thread_def store_get_def create_thread_def
        store_put_def current_version_def append_message_def initial_world_def)
  let ?W = "\<lparr>store = [''conv-b'' \<mapsto> (\<lparr>thread = 0\<rparr>, 1), ''conv-a'' \<mapsto> (\<lparr>thread = 1\<rparr>, 1)],
              threads = [(''conv-b'', [''hi'']), (''conv-a'', [''hello''])]\<rparr>"
  from thread_reference_is_stable [of "''conv-a''" "''hello''" "[(''conv-b'', ''hi'')]"]
  obtain t w1 where
    b: "begin_turn ''conv-a'' ''hello'' (run_turns [(''conv-b'', ''hi'')] initial_world) =
          Inr (t, w1)" and
    st: "\<forall>more m'. \<exists>w2. begin_turn ''conv-a'' m' (run_turns more w1) = Inr (t, w2)
            \<and> threads_of ''conv-a'' w2 = [t]"
    by blast
  from b e have "t = 1" and "w1 = ?W" by simp_all
  with st have "\<exists>w2. begin_turn ''conv-a'' ''again''
          (run_turns [(''conv-b'', ''more''), (''conv-a'', ''second'')] ?W) = Inr (1, w2)
        \<and> threads_of ''conv-a'' w2 = [1]"
    by blast
  with e show ?thesis by blast
qed

subsection \<open>The \<open>requires_action\<close> step\<close>





lemma valid_cached_update_other:
  "r' \<noteq> r \<Longrightarrow> valid_cached now user (ca((user, r) \<mapsto> tok)) r' = valid_cached now user ca r'"
  by (simp add: valid_cached_def)














end
